theory Spec2Isabelle
  imports Main
begin

section \<open>Expression tree\<close>

text \<open>
  The nodes of the expression tree, tagged by syntactic kind as in the Babylon AST. Only the
  kinds that the plugin reads or builds are listed, together with a few kinds that
  can surround a member access (assignment, bare statement). The builders of the
  host's capability set \<open>t\<close> (\<open>t.binaryExpression\<close>, \<open>t.logicalExpression\<close>, ...) are the
  constructors of this type: a builder returns a fresh node of its kind holding the
  arguments it was given.
\<close>

datatype node =
    Identifier string
  | NullLiteral
  | BooleanLiteral bool
  | NumericLiteral int
  | StringLiteral string
  | UnaryExpression string node bool
  | BinaryExpression string node node
  | LogicalExpression string node node
  | ConditionalExpression node node node
  | MemberExpression node node bool
  | CallExpression node "node list"
  | AssignmentExpression string node node
  | ExpressionStatement node

text \<open>The \<open>type\<close> field of a node.\<close>

fun get_type :: "node \<Rightarrow> string" where
  "get_type (Identifier n) = ''Identifier''"
| "get_type NullLiteral = ''NullLiteral''"
| "get_type (BooleanLiteral b) = ''BooleanLiteral''"
| "get_type (NumericLiteral i) = ''NumericLiteral''"
| "get_type (StringLiteral s) = ''StringLiteral''"
| "get_type (UnaryExpression opr a p) = ''UnaryExpression''"
| "get_type (BinaryExpression opr l r) = ''BinaryExpression''"
| "get_type (LogicalExpression opr l r) = ''LogicalExpression''"
| "get_type (ConditionalExpression c t e) = ''ConditionalExpression''"
| "get_type (MemberExpression obj prop c) = ''MemberExpression''"
| "get_type (CallExpression f args) = ''CallExpression''"
| "get_type (AssignmentExpression opr l r) = ''AssignmentExpression''"
| "get_type (ExpressionStatement e) = ''ExpressionStatement''"

text \<open>
  Field reads. Reading a field that a JavaScript object does not have gives
  \<open>undefined\<close>, here \<open>None\<close>; only member-access nodes have \<open>object\<close> and \<open>property\<close>,
  only identifiers have \<open>name\<close>.
\<close>

fun get_object :: "node \<Rightarrow> node option" where
  "get_object (MemberExpression obj prop c) = Some obj"
| "get_object _ = None"

fun get_property :: "node \<Rightarrow> node option" where
  "get_property (MemberExpression obj prop c) = Some prop"
| "get_property _ = None"

fun get_name :: "node \<Rightarrow> string option" where
  "get_name (Identifier n) = Some n"
| "get_name _ = None"

text \<open>
  A path is the host's handle on a node: the node itself and a reference to the
  parent, absent at the root. The source reads \<open>path.parent.type\<close>
  and \<open>path.parent.parent\<close>, so the parent is itself a handle that exposes its
  node's \<open>type\<close> and its own parent reference.
\<close>

datatype path = Path (node: node) (parent: "path option")

section \<open>Failures\<close>

text \<open>
  The source has no \<open>throw\<close> and no \<open>try\<close>. What can fail is a read of a field of
  \<open>undefined\<close> (a JavaScript TypeError naming the field), and a builder called with
  \<open>undefined\<close> where it requires a child node or a name (the host's builders validate
  their arguments). A failure ends the evaluation: the later steps do not run.
\<close>

datatype error =
    CannotReadProperty string
  | InvalidBuilderArgument string

definition and_then :: "error + 'a \<Rightarrow> ('a \<Rightarrow> error + 'b) \<Rightarrow> error + 'b" where
  "and_then r f = (case r of Inl e \<Rightarrow> Inl e | Inr v \<Rightarrow> f v)"

text \<open>The two results \<open>parentExists\<close> can have: a boolean, or \<open>undefined\<close>.\<close>

datatype jsvalue = JSUndefined | JSBoolean bool

fun truthy :: "jsvalue \<Rightarrow> bool" where
  "truthy JSUndefined = False"
| "truthy (JSBoolean b) = b"

section \<open>Guard builders\<close>

definition isNotExp :: "node \<Rightarrow> node \<Rightarrow> node" where
  "isNotExp comparate_left comparate_right =
     BinaryExpression ''!=='' comparate_left comparate_right"

text \<open>
  \<open>isNotTypeofExp\<close> destructures \<open>path.node.object\<close>; on a node without that field the
  value is \<open>undefined\<close> and the \<open>typeof\<close> builder is handed no argument.
\<close>

definition isNotTypeofExp :: "path \<Rightarrow> string \<Rightarrow> error + node" where
  "isNotTypeofExp p type_string =
     (case get_object (node p) of
        None \<Rightarrow> Inl (InvalidBuilderArgument ''argument'')
      | Some obj \<Rightarrow>
          Inr (isNotExp (UnaryExpression ''typeof'' obj False) (StringLiteral type_string)))"

definition isNotTypeUndefinedExp :: "path \<Rightarrow> error + node" where
  "isNotTypeUndefinedExp p = isNotTypeofExp p ''undefined''"

text \<open>
  \<open>isNotNullExp\<close> destructures \<open>path.node.property.name\<close>: the read of \<open>name\<close> fails when
  the node has no \<open>property\<close>. A property without a name hands \<open>undefined\<close> to the
  identifier builder; what the builder does with it is the host's choice (a
  validating builder throws, a lenient one returns a nameless identifier), and the
  validating one is taken here. The visitor calls the function only when the name is
  \<open>ex\<close>.
\<close>

definition isNotNullExp :: "path \<Rightarrow> error + node" where
  "isNotNullExp p =
     (case get_property (node p) of
        None \<Rightarrow> Inl (CannotReadProperty ''name'')
      | Some prop \<Rightarrow>
          (case get_name prop of
             None \<Rightarrow> Inl (InvalidBuilderArgument ''name'')
           | Some n \<Rightarrow> Inr (isNotExp (Identifier n) NullLiteral)))"

definition isNotTypeFunction :: "path \<Rightarrow> error + node" where
  "isNotTypeFunction p = isNotTypeofExp p ''function''"

definition isNotTypeUndefinedAndNotNullExp :: "path \<Rightarrow> error + node" where
  "isNotTypeUndefinedAndNotNullExp p =
     and_then (isNotTypeUndefinedExp p) (\<lambda>l.
     and_then (isNotNullExp p) (\<lambda>r.
     Inr (LogicalExpression ''&&'' l r)))"

definition isNotTypeUndefinedAndNotNullAndNotTypeFunctionExp :: "path \<Rightarrow> error + node" where
  "isNotTypeUndefinedAndNotNullAndNotTypeFunctionExp p =
     and_then (isNotTypeUndefinedAndNotNullExp p) (\<lambda>l.
     and_then (isNotTypeFunction p) (\<lambda>r.
     Inr (LogicalExpression ''&&'' l r)))"

section \<open>Classifier\<close>

text \<open>
  \<open>parentExists\<close> returns inside its \<open>if\<close> only; with no parent the function body ends
  without a \<open>return\<close>, and the call evaluates to \<open>undefined\<close>.
\<close>

definition parentExists :: "path \<Rightarrow> jsvalue" where
  "parentExists p =
     (case parent p of Some q \<Rightarrow> JSBoolean True | None \<Rightarrow> JSUndefined)"

definition childExists :: "path \<Rightarrow> error + bool" where
  "childExists p =
     (case parent p of
        None \<Rightarrow> Inl (CannotReadProperty ''type'')
      | Some q \<Rightarrow> Inr (get_type (node q) \<noteq> ''ExpressionStatement''))"

definition isCallee :: "path \<Rightarrow> error + bool" where
  "isCallee p =
     (case parent p of
        None \<Rightarrow> Inl (CannotReadProperty ''type'')
      | Some q \<Rightarrow> Inr (get_type (node q) = ''CallExpression''))"

text \<open>
  \<open>scopeIsAccessed\<close> is \<open>Boolean(a && b && c)\<close>: \<open>&&\<close> stops at the first operand that is
  not truthy, so \<open>path.parent.parent.type\<close> is read only after both calls of
  \<open>parentExists\<close> were truthy.
\<close>

definition scopeIsAccessed :: "path \<Rightarrow> error + bool" where
  "scopeIsAccessed p =
     (if \<not> truthy (parentExists p) then Inr False
      else case parent p of
        None \<Rightarrow> Inl (CannotReadProperty ''parent'')
      | Some q \<Rightarrow>
          (if \<not> truthy (parentExists q) then Inr False
           else case parent q of
             None \<Rightarrow> Inl (CannotReadProperty ''type'')
           | Some g \<Rightarrow> Inr (get_type (node g) = ''MemberExpression'')))"

section \<open>Branch factories\<close>

subsection \<open>Member access\<close>

definition testMemberExp :: "path \<Rightarrow> error + node" where
  "testMemberExp p = isNotTypeUndefinedAndNotNullExp p"

text \<open>
  \<open>consequentMemberExp\<close> returns the field \<open>path.node.object\<close> as it is read, which is
  \<open>undefined\<close> (\<open>None\<close>) on a node without that field.
\<close>

definition consequentMemberExp :: "path \<Rightarrow> error + node option" where
  "consequentMemberExp p =
     and_then (childExists p) (\<lambda>consumed.
     Inr (if consumed then get_object (node p) else Some (BooleanLiteral True)))"

definition alternativeMemberExp :: "path \<Rightarrow> error + node" where
  "alternativeMemberExp p =
     and_then (childExists p) (\<lambda>consumed.
     Inr (if consumed then UnaryExpression ''void'' (NumericLiteral 0) False
          else BooleanLiteral False))"

subsection \<open>Call position\<close>

text \<open>
  The test and the alternative of the call-position family. Its consequent,
  \<open>consequentCallExp\<close>, hands the path handle itself (not a node) to the call builder
  as callee; it is called from \<open>consequentExpression\<close> only, which nothing calls, and is
  left out of the embedding.
\<close>

definition testCallExp :: "path \<Rightarrow> error + node" where
  "testCallExp p = isNotTypeUndefinedAndNotNullAndNotTypeFunctionExp p"

definition alternativeCallExp :: "path \<Rightarrow> error + node" where
  "alternativeCallExp p =
     and_then (childExists p) (\<lambda>consumed.
     Inr (if consumed then UnaryExpression ''void'' (NumericLiteral 0) False
          else BooleanLiteral False))"

subsection \<open>Selection by context\<close>

definition testExpression :: "path \<Rightarrow> error + node" where
  "testExpression p =
     and_then (isCallee p) (\<lambda>callee. if callee then testCallExp p else testMemberExp p)"

definition alternativeExpression :: "path \<Rightarrow> error + node" where
  "alternativeExpression p =
     and_then (isCallee p) (\<lambda>callee.
       if callee then alternativeCallExp p else alternativeMemberExp p)"

section \<open>Rewrite engine and visitor\<close>

text \<open>
  The three arguments of \<open>t.conditionalExpression\<close> are evaluated left to right, then
  the builder runs; an \<open>undefined\<close> consequent is refused by the builder.
\<close>

definition existentialExpression :: "path \<Rightarrow> error + node" where
  "existentialExpression p =
     and_then (testMemberExp p) (\<lambda>test.
     and_then (consequentMemberExp p) (\<lambda>consequent.
     and_then (alternativeMemberExp p) (\<lambda>alternate.
     case consequent of
       None \<Rightarrow> Inl (InvalidBuilderArgument ''consequent'')
     | Some c \<Rightarrow> Inr (ConditionalExpression test c alternate))))"

text \<open>
  The visitor entry for member-access nodes. The result is \<open>Some r\<close> when
  \<open>path.replaceWith\<close> is called with the replacement \<open>r\<close>, and \<open>None\<close> when the callback
  returns without calling it, which leaves the tree as it was. The argument of
  \<open>replaceWith\<close> is evaluated before the call, so a failure while building the
  replacement reaches the host with no substitution requested.
\<close>

definition visitor :: "path \<Rightarrow> error + node option" where
  "visitor p =
     (case get_property (node p) of
        None \<Rightarrow> Inl (CannotReadProperty ''name'')
      | Some prop \<Rightarrow>
          (if get_name prop = Some ''ex''
           then and_then (existentialExpression p) (\<lambda>r. Inr (Some r))
           else Inr None))"

section \<open>Sub-nodes\<close>

text \<open>All nodes of a tree, the root first.\<close>

fun subnodes :: "node \<Rightarrow> node list" where
  "subnodes (UnaryExpression opr a p) = UnaryExpression opr a p # subnodes a"
| "subnodes (BinaryExpression opr l r) = BinaryExpression opr l r # subnodes l @ subnodes r"
| "subnodes (LogicalExpression opr l r) = LogicalExpression opr l r # subnodes l @ subnodes r"
| "subnodes (ConditionalExpression c t e) =
     ConditionalExpression c t e # subnodes c @ subnodes t @ subnodes e"
| "subnodes (MemberExpression obj prop c) =
     MemberExpression obj prop c # subnodes obj @ subnodes prop"
| "subnodes (CallExpression f args) =
     CallExpression f args # subnodes f @ concat (map subnodes args)"
| "subnodes (AssignmentExpression opr l r) =
     AssignmentExpression opr l r # subnodes l @ subnodes r"
| "subnodes (ExpressionStatement e) = ExpressionStatement e # subnodes e"
| "subnodes n = [n]"

text \<open>A node the visitor matches: a member access whose property is named \<open>ex\<close>.\<close>

fun is_ex_access :: "node \<Rightarrow> bool" where
  "is_ex_access (MemberExpression obj prop c) = (get_name prop = Some ''ex'')"
| "is_ex_access _ = False"

definition contains_ex_access :: "node \<Rightarrow> bool" where
  "contains_ex_access n = list_ex is_ex_access (subnodes n)"

section \<open>Example trees\<close>

text \<open>The access \<open>a.ex\<close>, and the places it is put in: \<open>a.ex;\<close>, \<open>b = a.ex\<close>, \<open>f(a.ex)\<close>, \<open>a.ex()\<close>.\<close>

definition a_ex :: node where
  "a_ex = MemberExpression (Identifier ''a'') (Identifier ''ex'') False"

definition in_statement :: path where
  "in_statement = Path a_ex (Some (Path (ExpressionStatement a_ex) None))"

definition in_assignment :: path where
  "in_assignment =
     Path a_ex (Some (Path (AssignmentExpression ''='' (Identifier ''b'') a_ex) None))"

definition in_argument :: path where
  "in_argument = Path a_ex (Some (Path (CallExpression (Identifier ''f'') [a_ex]) None))"

definition in_callee :: path where
  "in_callee = Path a_ex (Some (Path (CallExpression a_ex []) None))"

definition at_root :: path where
  "at_root = Path a_ex None"

section \<open>The visitor over a store of node objects\<close>

text \<open>
  A JavaScript node is an object: a builder allocates a new one, a field holds a
  reference to a child object, and the replacement's consequent is the very object
  the matched node has as \<open>object\<close>. To speak of what one invocation leaves behind for
  the next, the rewrite engine and the visitor are written a second time over an explicit
  store. The store is the list of the objects allocated so far, a reference is a
  position in it, and a builder appends its new object. Every function takes the
  store and returns it with its result, also when it fails.
\<close>

type_synonym ref = nat

datatype obj =
    IdentifierObj string
  | NullLiteralObj
  | BooleanLiteralObj bool
  | NumericLiteralObj int
  | StringLiteralObj string
  | UnaryExpressionObj string ref bool
  | BinaryExpressionObj string ref ref
  | LogicalExpressionObj string ref ref
  | ConditionalExpressionObj ref ref ref
  | MemberExpressionObj ref ref bool
  | CallExpressionObj ref "ref list"
  | AssignmentExpressionObj string ref ref
  | ExpressionStatementObj ref










subsection \<open>Guard builders, branch factories, rewrite engine\<close>












subsection \<open>The tree an object stands for\<close>






section \<open>Evaluation lemmas\<close>

lemma and_then_Inr [simp]: "and_then (Inr v) f = f v"
  by (simp add: and_then_def)

lemma and_then_Inl [simp]: "and_then (Inl e) f = Inl e"
  by (simp add: and_then_def)

lemmas guard_defs =
  isNotExp_def isNotTypeofExp_def isNotTypeUndefinedExp_def isNotNullExp_def
  isNotTypeFunction_def isNotTypeUndefinedAndNotNullExp_def
  isNotTypeUndefinedAndNotNullAndNotTypeFunctionExp_def

lemmas example_defs =
  a_ex_def in_statement_def in_assignment_def in_argument_def in_callee_def at_root_def

lemma get_name_ex: "get_name prp = Some n \<longleftrightarrow> prp = Identifier n"
  by (cases prp) auto

lemma testMemberExp_member:
  assumes "node p = MemberExpression obj (Identifier n) cmp"
  shows "testMemberExp p =
           Inr (LogicalExpression ''&&''
                  (BinaryExpression ''!=='' (UnaryExpression ''typeof'' obj False)
                     (StringLiteral ''undefined''))
                  (BinaryExpression ''!=='' (Identifier n) NullLiteral))"
  using assms by (simp add: testMemberExp_def guard_defs)

lemma testCallExp_member:
  assumes "node p = MemberExpression obj (Identifier n) cmp"
  shows "testCallExp p =
           Inr (LogicalExpression ''&&''
                  (LogicalExpression ''&&''
                     (BinaryExpression ''!=='' (UnaryExpression ''typeof'' obj False)
                        (StringLiteral ''undefined''))
                     (BinaryExpression ''!=='' (Identifier n) NullLiteral))
                  (BinaryExpression ''!=='' (UnaryExpression ''typeof'' obj False)
                     (StringLiteral ''function'')))"
  using assms by (simp add: testCallExp_def guard_defs)

lemma childExists_parent:
  "parent p = Some q \<Longrightarrow> childExists p = Inr (get_type (node q) \<noteq> ''ExpressionStatement'')"
  by (simp add: childExists_def)

lemma childExists_root: "parent p = None \<Longrightarrow> childExists p = Inl (CannotReadProperty ''type'')"
  by (simp add: childExists_def)

lemma existentialExpression_member:
  assumes "node p = MemberExpression obj (Identifier n) cmp" and "parent p = Some q"
  shows "existentialExpression p =
           Inr (ConditionalExpression
                  (LogicalExpression ''&&''
                     (BinaryExpression ''!=='' (UnaryExpression ''typeof'' obj False)
                        (StringLiteral ''undefined''))
                     (BinaryExpression ''!=='' (Identifier n) NullLiteral))
                  (if get_type (node q) \<noteq> ''ExpressionStatement'' then obj
                   else BooleanLiteral True)
                  (if get_type (node q) \<noteq> ''ExpressionStatement''
                   then UnaryExpression ''void'' (NumericLiteral 0) False
                   else BooleanLiteral False))"
  using assms
  by (simp add: existentialExpression_def testMemberExp_member consequentMemberExp_def
      alternativeMemberExp_def childExists_parent)

lemma existentialExpression_root:
  assumes "node p = MemberExpression obj (Identifier n) cmp" and "parent p = None"
  shows "existentialExpression p = Inl (CannotReadProperty ''type'')"
  using assms
  by (simp add: existentialExpression_def testMemberExp_member consequentMemberExp_def
      childExists_root)

lemma visitor_member:
  assumes "node p = MemberExpression obj prp cmp"
  shows "visitor p =
           (if get_name prp = Some ''ex''
            then and_then (existentialExpression p) (\<lambda>r. Inr (Some r)) else Inr None)"
  using assms by (simp add: visitor_def)

text \<open>
  C1. For every matched \<open>ex\<close> access: \<open>testMemberExp\<close> returns a test; a replacement is
  built exactly when \<open>consequentMemberExp\<close> and \<open>alternativeMemberExp\<close> return, and it is
  then the conditional expression of these three outputs; this happens exactly when
  the path has a parent. Where \<open>isCallee\<close> answers true the replacement is built in
  this same way, while the selecting factory \<open>testExpression\<close> would take the
  call-position test, which is not the test of the replacement. The instance below
  is \<open>a.ex()\<close>.
\<close>
theorem existentialExpression_member_branch:
  assumes "node p = MemberExpression obj prp cmp"
    and "get_name prp = Some ''ex''"
  shows "\<exists>t. testMemberExp p = Inr t
           \<and> (\<forall>r. existentialExpression p = Inr r \<longleftrightarrow>
                 (\<exists>c a. consequentMemberExp p = Inr (Some c)
                    \<and> alternativeMemberExp p = Inr a
                    \<and> r = ConditionalExpression t c a))
           \<and> ((\<exists>r. existentialExpression p = Inr r) \<longleftrightarrow> parent p \<noteq> None)
           \<and> (isCallee p = Inr True \<longrightarrow>
                (\<exists>r. existentialExpression p = Inr r)
                \<and> testExpression p = testCallExp p \<and> testCallExp p \<noteq> Inr t)"
proof -
  from assms(2) have prp: "prp = Identifier ''ex''" by (simp add: get_name_ex)
  note n = assms(1)[unfolded prp]
  let ?t = "LogicalExpression ''&&''
              (BinaryExpression ''!=='' (UnaryExpression ''typeof'' obj False)
                 (StringLiteral ''undefined''))
              (BinaryExpression ''!=='' (Identifier ''ex'') NullLiteral)"
  have t: "testMemberExp p = Inr ?t"
    by (rule testMemberExp_member [OF n])
  have built: "\<forall>r. existentialExpression p = Inr r \<longleftrightarrow>
                 (\<exists>c a. consequentMemberExp p = Inr (Some c)
                    \<and> alternativeMemberExp p = Inr a
                    \<and> r = ConditionalExpression ?t c a)"
    by (cases "consequentMemberExp p"; cases "alternativeMemberExp p")
      (auto simp: existentialExpression_def t split: option.splits)
  have total: "(\<exists>r. existentialExpression p = Inr r) \<longleftrightarrow> parent p \<noteq> None"
  proof (cases "parent p")
    case None
    then show ?thesis by (simp add: existentialExpression_root [OF n])
  next
    case (Some q)
    then show ?thesis by (simp add: existentialExpression_member [OF n])
  qed
  have callee: "isCallee p = Inr True \<longrightarrow>
                  (\<exists>r. existentialExpression p = Inr r) \<and> testExpression p = testCallExp p"
    using total by (auto simp: testExpression_def isCallee_def split: option.splits)
  have d: "testCallExp p \<noteq> Inr ?t"
    by (simp add: testCallExp_member [OF n])
  show ?thesis using t built total callee d by blast
qed

theorem existentialExpression_member_branch_witness:
  "isCallee in_callee = Inr True
   \<and> existentialExpression in_callee =
       Inr (ConditionalExpression
              (LogicalExpression ''&&''
                 (BinaryExpression ''!=='' (UnaryExpression ''typeof'' (Identifier ''a'') False)
                    (StringLiteral ''undefined''))
                 (BinaryExpression ''!=='' (Identifier ''ex'') NullLiteral))
              (Identifier ''a'')
              (UnaryExpression ''void'' (NumericLiteral 0) False))
   \<and> testExpression in_callee = testCallExp in_callee
   \<and> testCallExp in_callee \<noteq> testMemberExp in_callee"
proof -
  have n: "node in_callee = MemberExpression (Identifier ''a'') (Identifier ''ex'') False"
    by (simp add: example_defs)
  have x: "get_name (Identifier ''ex'') = Some ''ex''" by simp
  have q: "parent in_callee = Some (Path (CallExpression a_ex []) None)"
    by (simp add: example_defs)
  have callee: "isCallee in_callee = Inr True"
    by (simp add: isCallee_def q)
  from existentialExpression_member_branch [OF n x] obtain t
    where t: "testMemberExp in_callee = Inr t"
      and b: "\<forall>r. existentialExpression in_callee = Inr r \<longleftrightarrow>
                 (\<exists>c a. consequentMemberExp in_callee = Inr (Some c)
                    \<and> alternativeMemberExp in_callee = Inr a
                    \<and> r = ConditionalExpression t c a)"
      and s: "isCallee in_callee = Inr True \<longrightarrow>
                (\<exists>r. existentialExpression in_callee = Inr r)
                \<and> testExpression in_callee = testCallExp in_callee
                \<and> testCallExp in_callee \<noteq> Inr t"
    by blast
  have t': "t = LogicalExpression ''&&''
                 (BinaryExpression ''!=='' (UnaryExpression ''typeof'' (Identifier ''a'') False)
                    (StringLiteral ''undefined''))
                 (BinaryExpression ''!=='' (Identifier ''ex'') NullLiteral)"
    using t by (simp add: testMemberExp_member [OF n])
  have c: "consequentMemberExp in_callee = Inr (Some (Identifier ''a''))"
    by (simp add: consequentMemberExp_def childExists_def q n)
  have a: "alternativeMemberExp in_callee =
             Inr (UnaryExpression ''void'' (NumericLiteral 0) False)"
    by (simp add: alternativeMemberExp_def childExists_def q)
  have e: "existentialExpression in_callee =
             Inr (ConditionalExpression t (Identifier ''a'')
                    (UnaryExpression ''void'' (NumericLiteral 0) False))"
    using b c a by simp
  show ?thesis using callee e s t t' by simp
qed

text \<open>
  C2. On \<open>b = a.ex\<close> the null guard \<open>isNotNullExp\<close> builds \<open>ex !== null\<close>, a comparison of
  an identifier named after the property, where the base object is \<open>a\<close>; it does not
  build \<open>a !== null\<close>.
\<close>
theorem isNotNullExp_compares_property_name:
  "isNotNullExp in_assignment = Inr (BinaryExpression ''!=='' (Identifier ''ex'') NullLiteral)
   \<and> get_object (node in_assignment) = Some (Identifier ''a'')
   \<and> isNotNullExp in_assignment \<noteq> Inr (BinaryExpression ''!=='' (Identifier ''a'') NullLiteral)"
  by (simp add: example_defs guard_defs)

text \<open>
  C3. The visitor on \<open>a.ex\<close> with no parent reference: the property is named \<open>ex\<close>, and
  the callback fails while building the replacement, so no substitution is requested.
\<close>
theorem visitor_at_root_counterexample:
  "node at_root = MemberExpression (Identifier ''a'') (Identifier ''ex'') False
   \<and> get_name (Identifier ''ex'') = Some ''ex''
   \<and> visitor at_root = Inl (CannotReadProperty ''type'')"
proof -
  have n: "node at_root = MemberExpression (Identifier ''a'') (Identifier ''ex'') False"
    by (simp add: example_defs)
  have r: "parent at_root = None"
    by (simp add: example_defs)
  show ?thesis
    by (simp add: n visitor_member [OF n] existentialExpression_root [OF n r])
qed

text \<open>
  C3, as the code has it. On a member-access node the visitor requests a substitution
  exactly when the property is named \<open>ex\<close> and the path has a parent reference; when
  the property is not named \<open>ex\<close> (or has no name) it returns without substituting.
\<close>
theorem visitor_substitutes_iff_ex:
  assumes "node p = MemberExpression obj prp cmp"
  shows "((\<exists>r. visitor p = Inr (Some r)) \<longleftrightarrow> get_name prp = Some ''ex'' \<and> parent p \<noteq> None)
         \<and> (get_name prp \<noteq> Some ''ex'' \<longrightarrow> visitor p = Inr None)"
proof (cases "get_name prp = Some ''ex''")
  case False
  then show ?thesis by (simp add: visitor_member [OF assms])
next
  case True
  then have n: "node p = MemberExpression obj (Identifier ''ex'') cmp"
    using assms by (simp add: get_name_ex)
  show ?thesis
  proof (cases "parent p")
    case None
    then show ?thesis
      using True by (simp add: visitor_member [OF assms] existentialExpression_root [OF n])
  next
    case (Some q)
    then show ?thesis
      using True by (simp add: visitor_member [OF assms] existentialExpression_member [OF n])
  qed
qed

theorem visitor_substitutes_iff_ex_witness:
  "(\<exists>r. visitor in_argument = Inr (Some r))
   \<and> visitor (Path (MemberExpression (Identifier ''a'') (Identifier ''b'') False) None) = Inr None"
  using visitor_substitutes_iff_ex [of in_argument "Identifier ''a''" "Identifier ''ex''" False]
    visitor_substitutes_iff_ex
      [of "Path (MemberExpression (Identifier ''a'') (Identifier ''b'') False) None"
          "Identifier ''a''" "Identifier ''b''" False]
  by (simp add: example_defs)

text \<open>
  C4. For a member access whose parent is not an \<open>ExpressionStatement\<close> the member
  branch gives the base object as consequent and \<open>void 0\<close> as alternative; under an
  \<open>ExpressionStatement\<close> it gives the literals \<open>true\<close> and \<open>false\<close>.
\<close>
theorem member_branch_by_consumption:
  assumes "node p = MemberExpression obj prp cmp" and "parent p = Some q"
  shows "(get_type (node q) \<noteq> ''ExpressionStatement'' \<longrightarrow>
            consequentMemberExp p = Inr (Some obj)
            \<and> alternativeMemberExp p = Inr (UnaryExpression ''void'' (NumericLiteral 0) False))
         \<and> (get_type (node q) = ''ExpressionStatement'' \<longrightarrow>
            consequentMemberExp p = Inr (Some (BooleanLiteral True))
            \<and> alternativeMemberExp p = Inr (BooleanLiteral False))"
  using assms
  by (simp add: consequentMemberExp_def alternativeMemberExp_def childExists_parent)

theorem member_branch_by_consumption_witness:
  "consequentMemberExp in_assignment = Inr (Some (Identifier ''a''))
   \<and> alternativeMemberExp in_assignment = Inr (UnaryExpression ''void'' (NumericLiteral 0) False)
   \<and> consequentMemberExp in_statement = Inr (Some (BooleanLiteral True))
   \<and> alternativeMemberExp in_statement = Inr (BooleanLiteral False)"
  using member_branch_by_consumption
      [of in_assignment "Identifier ''a''" "Identifier ''ex''" False
          "Path (AssignmentExpression ''='' (Identifier ''b'') a_ex) None"]
    member_branch_by_consumption
      [of in_statement "Identifier ''a''" "Identifier ''ex''" False
          "Path (ExpressionStatement a_ex) None"]
  by (simp add: example_defs)

lemma visitor_no_match:
  assumes "\<not> contains_ex_access r" and "m \<in> set (subnodes r)"
    and "get_type m = ''MemberExpression''"
  shows "visitor (Path m anc) = Inr None"
proof -
  from assms(1,2) have "\<not> is_ex_access m"
    by (auto simp: contains_ex_access_def list_ex_iff)
  moreover from assms(3) obtain obj prp cmp where "m = MemberExpression obj prp cmp"
    by (cases m) simp_all
  ultimately show ?thesis by (simp add: visitor_def)
qed

text \<open>
  C5. When the visitor replaces an access whose base object holds no access to a
  property named \<open>ex\<close>, the replacement holds none either, and the visitor run on any
  member access inside the replacement, under any ancestors, substitutes nothing.
\<close>
theorem replacement_has_no_ex_access:
  assumes "node p = MemberExpression obj prp cmp"
    and "\<not> contains_ex_access obj"
    and "visitor p = Inr (Some r)"
  shows "\<not> contains_ex_access r
         \<and> (\<forall>m \<in> set (subnodes r). \<forall>anc.
               get_type m = ''MemberExpression'' \<longrightarrow> visitor (Path m anc) = Inr None)"
proof -
  have x: "get_name prp = Some ''ex''"
    using assms(3) by (simp add: visitor_member [OF assms(1)] split: if_splits)
  then have n: "node p = MemberExpression obj (Identifier ''ex'') cmp"
    using assms(1) by (simp add: get_name_ex)
  obtain q where q: "parent p = Some q"
    using assms(3) x
    by (cases "parent p")
      (simp_all add: visitor_member [OF assms(1)] existentialExpression_root [OF n])
  have r: "r = ConditionalExpression
                  (LogicalExpression ''&&''
                     (BinaryExpression ''!=='' (UnaryExpression ''typeof'' obj False)
                        (StringLiteral ''undefined''))
                     (BinaryExpression ''!=='' (Identifier ''ex'') NullLiteral))
                  (if get_type (node q) \<noteq> ''ExpressionStatement'' then obj
                   else BooleanLiteral True)
                  (if get_type (node q) \<noteq> ''ExpressionStatement''
                   then UnaryExpression ''void'' (NumericLiteral 0) False
                   else BooleanLiteral False)"
    using assms(3) x
    by (simp add: visitor_member [OF assms(1)] existentialExpression_member [OF n q])
  have clean: "\<not> contains_ex_access r"
    using assms(2) by (simp add: r contains_ex_access_def)
  then show ?thesis by (simp add: visitor_no_match)
qed

theorem replacement_has_no_ex_access_witness:
  "visitor in_argument =
     Inr (Some (ConditionalExpression
              (LogicalExpression ''&&''
                 (BinaryExpression ''!=='' (UnaryExpression ''typeof'' (Identifier ''a'') False)
                    (StringLiteral ''undefined''))
                 (BinaryExpression ''!=='' (Identifier ''ex'') NullLiteral))
              (Identifier ''a'')
              (UnaryExpression ''void'' (NumericLiteral 0) False)))
   \<and> \<not> contains_ex_access (ConditionalExpression
              (LogicalExpression ''&&''
                 (BinaryExpression ''!=='' (UnaryExpression ''typeof'' (Identifier ''a'') False)
                    (StringLiteral ''undefined''))
                 (BinaryExpression ''!=='' (Identifier ''ex'') NullLiteral))
              (Identifier ''a'')
              (UnaryExpression ''void'' (NumericLiteral 0) False))"
proof -
  have n: "node in_argument = MemberExpression (Identifier ''a'') (Identifier ''ex'') False"
    by (simp add: example_defs)
  have q: "parent in_argument = Some (Path (CallExpression (Identifier ''f'') [a_ex]) None)"
    by (simp add: example_defs)
  have c: "\<not> contains_ex_access (Identifier ''a'')"
    by (simp add: contains_ex_access_def)
  have v: "visitor in_argument =
     Inr (Some (ConditionalExpression
              (LogicalExpression ''&&''
                 (BinaryExpression ''!=='' (UnaryExpression ''typeof'' (Identifier ''a'') False)
                    (StringLiteral ''undefined''))
                 (BinaryExpression ''!=='' (Identifier ''ex'') NullLiteral))
              (Identifier ''a'')
              (UnaryExpression ''void'' (NumericLiteral 0) False)))"
    by (simp add: visitor_member [OF n] existentialExpression_member [OF n q])
  show ?thesis using v replacement_has_no_ex_access [OF n c v] by simp
qed

text \<open>
  C6. In \<open>f(a.ex)\<close> the access is the call's only argument and differs from the callee
  \<open>f\<close>; \<open>isCallee\<close> answers true for it.
\<close>
theorem isCallee_true_in_argument_position:
  "parent in_argument = Some (Path (CallExpression (Identifier ''f'') [node in_argument]) None)
   \<and> node in_argument \<noteq> Identifier ''f''
   \<and> isCallee in_argument = Inr True"
  by (simp add: example_defs isCallee_def)

text \<open>
  C7. For a path with no parent reference \<open>parentExists\<close> evaluates to \<open>undefined\<close>, not
  to the boolean \<open>false\<close>.
\<close>
theorem parentExists_at_root_is_undefined:
  "parent at_root = None \<and> parentExists at_root = JSUndefined
   \<and> parentExists at_root \<noteq> JSBoolean False"
  by (simp add: example_defs parentExists_def)

text \<open>
  C8. For a matched access, the member test is the \<open>&&\<close> of two comparisons: on the
  left \<open>typeof object !== "undefined"\<close>, built over the base object, which is what
  \<open>isNotTypeUndefinedExp\<close> returns; on the right the node that the null guard
  \<open>isNotNullExp\<close> returns, which is \<open>ex !== null\<close>.
\<close>
theorem testMemberExp_is_exists_guard:
  assumes "node p = MemberExpression obj prp cmp" and "get_name prp = Some ''ex''"
  shows "isNotTypeUndefinedExp p =
           Inr (BinaryExpression ''!=='' (UnaryExpression ''typeof'' obj False)
                  (StringLiteral ''undefined''))
         \<and> isNotNullExp p = Inr (BinaryExpression ''!=='' (Identifier ''ex'') NullLiteral)
         \<and> testMemberExp p =
             Inr (LogicalExpression ''&&''
                    (BinaryExpression ''!=='' (UnaryExpression ''typeof'' obj False)
                       (StringLiteral ''undefined''))
                    (BinaryExpression ''!=='' (Identifier ''ex'') NullLiteral))"
  using assms by (simp add: get_name_ex testMemberExp_def guard_defs)

theorem testMemberExp_is_exists_guard_witness:
  "isNotTypeUndefinedExp at_root =
     Inr (BinaryExpression ''!=='' (UnaryExpression ''typeof'' (Identifier ''a'') False)
            (StringLiteral ''undefined''))
   \<and> isNotNullExp at_root = Inr (BinaryExpression ''!=='' (Identifier ''ex'') NullLiteral)
   \<and> testMemberExp at_root =
       Inr (LogicalExpression ''&&''
              (BinaryExpression ''!=='' (UnaryExpression ''typeof'' (Identifier ''a'') False)
                 (StringLiteral ''undefined''))
              (BinaryExpression ''!=='' (Identifier ''ex'') NullLiteral))"
  using testMemberExp_is_exists_guard [of at_root "Identifier ''a''" "Identifier ''ex''" False]
  by (simp add: example_defs)

text \<open>
  C9. On a matched access with no parent reference, \<open>childExists\<close> fails reading
  \<open>type\<close> off the absent parent, and that failure is the result of
  \<open>existentialExpression\<close> and of the visitor: nothing catches it.
\<close>
theorem visitor_fails_without_parent:
  assumes "node p = MemberExpression obj prp cmp"
    and "get_name prp = Some ''ex''"
    and "parent p = None"
  shows "childExists p = Inl (CannotReadProperty ''type'')
         \<and> existentialExpression p = Inl (CannotReadProperty ''type'')
         \<and> visitor p = Inl (CannotReadProperty ''type'')"
proof -
  from assms(1,2) have n: "node p = MemberExpression obj (Identifier ''ex'') cmp"
    by (simp add: get_name_ex)
  show ?thesis
    using assms(2,3)
    by (simp add: childExists_root visitor_member [OF assms(1)] existentialExpression_root [OF n])
qed

theorem visitor_fails_without_parent_witness:
  "childExists at_root = Inl (CannotReadProperty ''type'')
   \<and> existentialExpression at_root = Inl (CannotReadProperty ''type'')
   \<and> visitor at_root = Inl (CannotReadProperty ''type'')"
  using visitor_fails_without_parent [of at_root "Identifier ''a''" "Identifier ''ex''" False]
  by (simp add: example_defs)

section \<open>The store and the trees\<close>






























end
